theory Spec2Isabelle
  imports Complex_Main
begin

section \<open>The BB84 simulator frontend (src/frontend/src/App.js)\<close>

text \<open>
  The component \<open>BB84Simulator\<close> keeps its state in React hooks and talks to a backend
  over three JSON endpoints. Each asynchronous handler is modelled as a function from the
  state at the click (the values its closure captured) and the backend's reply to the
  state once the handler has settled. A reply of \<open>None\<close> stands for a rejected
  \<open>fetch\<close> or a body that is not JSON: both throw inside the handler's \<open>try\<close>.
  The values on the wire are typed as the backend's contract types them: keys are lists
  of bits, a row is an object of scalar cells, an error is a message.

  The second copy of the component, src/unnamed/part_000, has the same three handlers;
  it differs in markup and colours, and its \<open>animatePhoton\<close> also stores the bit in
  the photon view.
\<close>

subsection \<open>Wire values\<close>

text \<open>
  A row of \<open>data.table_data\<close> is a JSON object whose cells are scalars; it is kept as the
  list of its fields in the order the backend wrote them, as \<open>Object.values(row)\<close> shows
  them. A missing key reads as \<open>undefined\<close>, here \<open>None\<close>.
\<close>

datatype cell = CNull | CBool bool | CNum int | CStr string

type_synonym row = "(string \<times> cell) list"

record run_request =
  n_bits :: int
  eve_prob :: real

text \<open>
  The fields read from a successful reply of \<open>/api/bb84\<close>. The field \<open>data.qber\<close> is
  named \<open>data_qber\<close> here, since the state has a \<open>qber\<close> of its own.
\<close>

record run_result =
  table_data :: "row list"
  matched_indices :: "nat list"
  bob_key :: "int list"
  data_qber :: real
  eve_key :: "int list"

text \<open>
  The reply object: \<open>error\<close> is \<open>data.error\<close> (absent: \<open>None\<close>), \<open>result\<close> holds the
  five result fields when the object carries them.
\<close>

record run_response =
  error :: "string option"
  result :: "run_result option"

record encrypt_response =
  enc_error :: "string option"
  ciphertext :: "string option"

record encrypt_request =
  enc_message :: string
  enc_key :: "int list"

record decrypt_request =
  encrypted_data :: encrypt_response
  dec_key :: "int list"

record decrypt_response =
  dec_error :: "string option"
  decrypted :: "string option"

subsection \<open>Component state\<close>

text \<open>The arrow glyph of the travelling photon: the first for bit 0, the second otherwise.\<close>

datatype photon_symbol = ArrowRight | ArrowUpRight

record photon_view =
  symbol :: photon_symbol
  color :: string
  basis :: nat

text \<open>The texts written to the timeline, one constructor per \<open>setTimeline\<close> call site.\<close>

datatype timeline_text =
    Blank
  | SendingRequest
  | ErrorText string
  | Animating
  | DisplayingPhoton nat nat
  | PerformingSifting
  | SimulationComplete
  | ConnectionError
  | NeedKeyAndMessage
  | Encrypting
  | EncryptionErrorText string
  | EncryptedOk
  | EncryptFailed
  | NoDataOrKey
  | Decrypting
  | DecryptionErrorText string
  | DecryptedOk
  | DecryptFailed

text \<open>\<open>qber\<close> starts as the number 0 and later holds the string \<open>toFixed(2)\<close> returns.\<close>

datatype qber_shown = QNum real | QText string

record ui_state =
  n :: int
  eveProb :: real
  speed :: int
  tableData :: "row list"
  timeline :: timeline_text
  photon :: "photon_view option"
  animationKey :: nat
  eveActive :: bool
  highlightedRow :: "nat option"
  siftedKey :: "int list"
  qber :: qber_shown
  eveKey :: "int list"
  isRunning :: bool
  message :: string
  encryptedData :: "encrypt_response option"
  decryptedMessage :: "string option"

definition initial_state :: ui_state where
  "initial_state =
     \<lparr>n = 8, eveProb = 3 / 10, speed = 150, tableData = [], timeline = Blank,
      photon = None, animationKey = 0, eveActive = False, highlightedRow = None,
      siftedKey = [], qber = QNum 0, eveKey = [], isRunning = False, message = [],
      encryptedData = None, decryptedMessage = Some []\<rparr>"

text \<open>How a block of a handler ends: normally, or by a thrown exception.\<close>

datatype completion = Normal | Thrown

text \<open>JavaScript truthiness of an optional string: \<open>undefined\<close> and \<open>""\<close> are falsy.\<close>

definition truthy :: "string option \<Rightarrow> bool" where
  "truthy v = (case v of None \<Rightarrow> False | Some s \<Rightarrow> s \<noteq> [])"

subsection \<open>encryptMessage and decryptMessage\<close>

text \<open>
  \<^verbatim>\<open>if (!message || siftedKey.length === 0) { setTimeline(...); return; }\<close>
  comes before any request. The result pairs the final state with the request that was
  sent, if one was.
\<close>

definition encryptMessage ::
  "(encrypt_request \<Rightarrow> encrypt_response option) \<Rightarrow> ui_state
     \<Rightarrow> ui_state \<times> encrypt_request option" where
  "encryptMessage fetch st =
     (if message st = [] \<or> length (siftedKey st) = 0 then
        (st\<lparr>timeline := NeedKeyAndMessage\<rparr>, None)
      else
        let req = \<lparr>enc_message = message st, enc_key = siftedKey st\<rparr>;
            st1 = st\<lparr>timeline := Encrypting\<rparr>
        in (case fetch req of
              None \<Rightarrow> (st1\<lparr>timeline := EncryptFailed\<rparr>, Some req)
            | Some data \<Rightarrow>
                if truthy (enc_error data) then
                  (st1\<lparr>timeline := EncryptionErrorText (the (enc_error data))\<rparr>, Some req)
                else
                  (st1\<lparr>encryptedData := Some data, timeline := EncryptedOk\<rparr>, Some req)))"

definition decryptMessage ::
  "(decrypt_request \<Rightarrow> decrypt_response option) \<Rightarrow> ui_state
     \<Rightarrow> ui_state \<times> decrypt_request option" where
  "decryptMessage fetch st =
     (case encryptedData st of
        None \<Rightarrow> (st\<lparr>timeline := NoDataOrKey\<rparr>, None)
      | Some env \<Rightarrow>
          if length (siftedKey st) = 0 then (st\<lparr>timeline := NoDataOrKey\<rparr>, None)
          else
            let req = \<lparr>encrypted_data = env, dec_key = siftedKey st\<rparr>;
                st1 = st\<lparr>timeline := Decrypting\<rparr>
            in (case fetch req of
                  None \<Rightarrow> (st1\<lparr>timeline := DecryptFailed\<rparr>, Some req)
                | Some data \<Rightarrow>
                    if truthy (dec_error data) then
                      (st1\<lparr>timeline := DecryptionErrorText (the (dec_error data))\<rparr>, Some req)
                    else
                      (st1\<lparr>decryptedMessage := decrypted data, timeline := DecryptedOk\<rparr>,
                       Some req)))"

text \<open>\<^verbatim>\<open><button onClick={encryptMessage} disabled={siftedKey.length === 0}>\<close>\<close>

definition encrypt_button_disabled :: "ui_state \<Rightarrow> bool" where
  "encrypt_button_disabled st = (length (siftedKey st) = 0)"

subsection \<open>runSimulation\<close>

text \<open>
  \<^verbatim>\<open>animatePhoton(bit, basis, eveHere)\<close> shows the photon and bumps the animation key. Its
  two timers clear \<open>eveActive\<close> at half the delay and resolve the promise at the full
  delay, so \<open>eveActive\<close> is false when the caller resumes. The third argument is not
  used by the source either.
\<close>

definition animatePhoton :: "cell option \<Rightarrow> nat \<Rightarrow> bool \<Rightarrow> ui_state \<Rightarrow> ui_state" where
  "animatePhoton abit bas eveHere st =
     (let sym = (if abit = Some (CNum 0) then ArrowRight else ArrowUpRight);
          col = (if abit = Some (CNum 0) then ''#4fc3f7'' else ''#ff5252'')
      in st\<lparr>photon := Some \<lparr>symbol = sym, color = col, basis = bas\<rparr>,
            animationKey := animationKey st + 1,
            eveActive := False\<rparr>)"

text \<open>
  \<^verbatim>\<open>row["Alice Basis"].includes("+")\<close>: a string answers whether it holds the character;
  on anything else the call throws a TypeError (\<open>None\<close>).
\<close>

definition includes_plus :: "cell option \<Rightarrow> bool option" where
  "includes_plus v = (case v of Some (CStr s) \<Rightarrow> Some (CHR ''+'' \<in> set s) | _ \<Rightarrow> None)"

text \<open>
  The loop \<^verbatim>\<open>for (let i = 0; i < data.table_data.length; i++)\<close>: \<open>i\<close> is the index of the
  head of the remaining rows, \<open>len\<close> is \<open>data.table_data.length\<close>. Each row is appended to
  \<open>tableData\<close> after its animation.
\<close>

fun animate_rows :: "nat \<Rightarrow> nat \<Rightarrow> row list \<Rightarrow> ui_state \<Rightarrow> completion \<times> ui_state" where
  "animate_rows i len [] st = (Normal, st)"
| "animate_rows i len (r # rs) st =
     (let eveHere = (map_of r ''Eve Intercepting'' = Some (CStr ''Yes''));
          st1 = st\<lparr>timeline := DisplayingPhoton (i + 1) len, eveActive := eveHere\<rparr>
      in case includes_plus (map_of r ''Alice Basis'') of
           None \<Rightarrow> (Thrown, st1)
         | Some hasPlus \<Rightarrow>
             let st2 = animatePhoton (map_of r ''Alice Bit'') (if hasPlus then 0 else 1) eveHere st1
             in animate_rows (i + 1) len rs (st2\<lparr>tableData := tableData st2 @ [r]\<rparr>))"

text \<open>The sifting animation: each matched index is highlighted, then cleared.\<close>

fun highlight_rows :: "nat list \<Rightarrow> ui_state \<Rightarrow> ui_state" where
  "highlight_rows [] st = st"
| "highlight_rows (idx # rest) st =
     highlight_rows rest ((st\<lparr>highlightedRow := Some idx\<rparr>)\<lparr>highlightedRow := None\<rparr>)"

text \<open>
  The body of the \<open>try\<close> block, from the reply on. \<open>toFixed2\<close> is JavaScript's
  \<open>Number.prototype.toFixed(2)\<close>. The guard is \<^verbatim>\<open>if (data.error)\<close>; past it,
  \<open>data.table_data.length\<close> throws when the reply carries no result fields.
\<close>

definition run_try ::
  "(real \<Rightarrow> string) \<Rightarrow> run_response option \<Rightarrow> ui_state \<Rightarrow> completion \<times> ui_state" where
  "run_try toFixed2 reply st =
     (case reply of
        None \<Rightarrow> (Thrown, st)
      | Some data \<Rightarrow>
          if truthy (error data) then
            (Normal, st\<lparr>timeline := ErrorText (the (error data)), isRunning := False\<rparr>)
          else
            let st1 = st\<lparr>timeline := Animating\<rparr> in
            (case result data of
               None \<Rightarrow> (Thrown, st1)
             | Some res \<Rightarrow>
                 (case animate_rows 0 (length (table_data res)) (table_data res) st1 of
                    (Thrown, st2) \<Rightarrow> (Thrown, st2)
                  | (Normal, st2) \<Rightarrow>
                      let st3 = highlight_rows (matched_indices res)
                                  (st2\<lparr>timeline := PerformingSifting\<rparr>)
                      in (Normal,
                          st3\<lparr>siftedKey := bob_key res,
                               qber := QText (toFixed2 (data_qber res * 100)),
                               eveKey := eve_key res,
                               timeline := SimulationComplete\<rparr>))))"

text \<open>
  The handler: the reset written before the request, the request body
  \<^verbatim>\<open>{n_bits: n, eve_prob: eveProb}\<close>, the \<open>try\<close> block, \<open>catch\<close> and \<open>finally\<close>.
  The result pairs the settled state with the request that was sent.
\<close>

definition runSimulation ::
  "(real \<Rightarrow> string) \<Rightarrow> (run_request \<Rightarrow> run_response option) \<Rightarrow> ui_state
     \<Rightarrow> ui_state \<times> run_request" where
  "runSimulation toFixed2 fetch st =
     (let st0 = st\<lparr>isRunning := True, tableData := [], highlightedRow := None,
                   siftedKey := [], qber := QNum 0, eveKey := [],
                   timeline := SendingRequest\<rparr>;
          req = \<lparr>n_bits = n st, eve_prob = eveProb st\<rparr>;
          (c, st1) = run_try toFixed2 (fetch req) st0;
          st2 = (case c of Thrown \<Rightarrow> st1\<lparr>timeline := ConnectionError\<rparr> | Normal \<Rightarrow> st1)
      in (st2\<lparr>isRunning := False\<rparr>, req))"

subsection \<open>What the run boundary shows: request body, animation states, row classes\<close>







subsection \<open>Sample backend replies\<close>

text \<open>
  Concrete values for evaluating the handlers: a backend that answers every request with
  the same reply, a formatter standing for \<open>toFixed(2)\<close> on the value 0, and a reply with
  one row.
\<close>

definition backend_replying :: "run_response \<Rightarrow> run_request \<Rightarrow> run_response option" where
  "backend_replying data req = Some data"

definition backend_down :: "encrypt_request \<Rightarrow> encrypt_response option" where
  "backend_down req = None"

definition sample_toFixed2 :: "real \<Rightarrow> string" where
  "sample_toFixed2 x = ''0.00''"

definition sample_row :: row where
  "sample_row =
     [(''Alice Bit'', CNum 1), (''Alice Basis'', CStr ''+''), (''Bob Basis'', CStr ''+''),
      (''Match'', CStr ''Yes''), (''Eve Intercepting'', CStr ''No''), (''Eve Bit'', CStr ''-''),
      (''Bob Measured Bit'', CNum 1)]"

definition sample_result :: run_result where
  "sample_result =
     \<lparr>table_data = [sample_row], matched_indices = [0], bob_key = [1], data_qber = 0,
      eve_key = []\<rparr>"






section \<open>The simulation engine of the specification\<close>

text \<open>
  The backend behind \<open>/api/bb84\<close> is not among the sources: only its caller, the
  frontend above, is. The engine is therefore written down from sections 3, 4.1 and 4.2
  of the specification.
\<close>

datatype Basis = Rectilinear | Diagonal

datatype Bit = ZeroBit | OneBit

datatype core_error = InvalidParameter | InsufficientEntropy | AuthenticationFailure

text \<open>
  Modelled from the spec: the \<open>PhotonEvent\<close> record of section 3; the declaration is
  missing from the sources.
\<close>

record PhotonEvent =
  index :: nat
  aliceBit :: Bit
  aliceBasis :: Basis
  eveIntercepted :: bool
  eveBasis :: "Basis option"
  eveBit :: "Bit option"
  bobBasis :: Basis
  bobBit :: Bit

text \<open>
  Modelled from the spec: the \<open>BitBasisSource\<close> capability of section 4.1, an interface
  over a generator state \<open>'g\<close> that each draw advances. The implementation is missing
  from the sources.
\<close>

record 'g BitBasisSource =
  nextBit :: "'g \<Rightarrow> Bit \<times> 'g"
  nextBasis :: "'g \<Rightarrow> Basis \<times> 'g"

text \<open>
  Modelled from the spec: the measurement rule of sections 4.2 and 4.3, missing from the
  sources. Measuring in the photon's own basis returns its bit and draws nothing;
  measuring in the other basis returns a fresh random bit.
\<close>

definition measure_photon ::
  "'g BitBasisSource \<Rightarrow> Bit \<Rightarrow> Basis \<Rightarrow> Basis \<Rightarrow> 'g \<Rightarrow> Bit \<times> 'g" where
  "measure_photon src photonBit photonBasis measuredIn g =
     (if measuredIn = photonBasis then (photonBit, g) else nextBit src g)"

text \<open>
  Modelled from the spec: steps 1 to 5 of section 4.2 for the photon at index \<open>i\<close>,
  missing from the sources. \<open>trial\<close> is the Bernoulli trial of step 2, drawing on the
  same generator. With an interception Bob measures Eve's resent photon.
\<close>

definition simulate_photon ::
  "'g BitBasisSource \<Rightarrow> (real \<Rightarrow> 'g \<Rightarrow> bool \<times> 'g) \<Rightarrow> real \<Rightarrow> nat \<Rightarrow> 'g
     \<Rightarrow> PhotonEvent \<times> 'g" where
  "simulate_photon src trial p i g =
     (let (ab, g1) = nextBit src g;
          (abas, g2) = nextBasis src g1;
          (hit, g3) = trial p g2
      in if hit then
           let (ebas, g4) = nextBasis src g3;
               (eb, g5) = measure_photon src ab abas ebas g4;
               (bbas, g6) = nextBasis src g5;
               (bb, g7) = measure_photon src eb ebas bbas g6
           in (\<lparr>index = i, aliceBit = ab, aliceBasis = abas, eveIntercepted = True,
                eveBasis = Some ebas, eveBit = Some eb, bobBasis = bbas, bobBit = bb\<rparr>, g7)
         else
           let (bbas, g4) = nextBasis src g3;
               (bb, g5) = measure_photon src ab abas bbas g4
           in (\<lparr>index = i, aliceBit = ab, aliceBasis = abas, eveIntercepted = False,
                eveBasis = None, eveBit = None, bobBasis = bbas, bobBit = bb\<rparr>, g5))"

text \<open>
  Modelled from the spec: the loop of section 4.2 over the indices \<open>i, i + 1, ...\<close>,
  \<open>k\<close> photons in all, each appended once; missing from the sources.
\<close>

fun run_loop ::
  "'g BitBasisSource \<Rightarrow> (real \<Rightarrow> 'g \<Rightarrow> bool \<times> 'g) \<Rightarrow> real \<Rightarrow> nat \<Rightarrow> nat \<Rightarrow> 'g
     \<Rightarrow> PhotonEvent list \<times> 'g" where
  "run_loop src trial p i 0 g = ([], g)"
| "run_loop src trial p i (Suc k) g =
     (let (e, g1) = simulate_photon src trial p i g;
          (es, g2) = run_loop src trial p (Suc i) k g1
      in (e # es, g2))"

text \<open>
  Modelled from the spec: \<open>SimulationEngine.run\<close> of section 4.2, missing from the
  sources. It fails with \<open>InvalidParameter\<close> before any draw when the count is not
  positive or the probability is outside \<open>[0, 1]\<close>.
\<close>

definition run ::
  "'g BitBasisSource \<Rightarrow> (real \<Rightarrow> 'g \<Rightarrow> bool \<times> 'g) \<Rightarrow> int \<Rightarrow> real \<Rightarrow> 'g
     \<Rightarrow> (core_error + PhotonEvent list) \<times> 'g" where
  "run src trial photonCount p g =
     (if photonCount \<le> 0 \<or> p < 0 \<or> 1 < p then (Inl InvalidParameter, g)
      else let (tr, g') = run_loop src trial p 0 (nat photonCount) g in (Inr tr, g'))"

text \<open>
  Modelled from the spec: a deterministically seeded source (section 4.1 asks for one for
  reproducible tests), here a small linear congruential generator on \<open>{0, ..., 15}\<close>; the
  trial succeeds when the state, read as a sixteenth, lies below the probability.
\<close>

definition lcg :: "nat \<Rightarrow> nat" where
  "lcg s = (5 * s + 3) mod 16"

definition seeded_source :: "nat BitBasisSource" where
  "seeded_source =
     \<lparr>nextBit = (\<lambda>s. (if even (s div 4) then ZeroBit else OneBit, lcg s)),
      nextBasis = (\<lambda>s. (if even (s div 2) then Rectilinear else Diagonal, lcg s))\<rparr>"

definition seeded_trial :: "real \<Rightarrow> nat \<Rightarrow> bool \<times> nat" where
  "seeded_trial p s = (real s < p * 16, lcg s)"

section \<open>Properties of the frontend\<close>










text \<open>
  C9. The frontend never issues an encrypt request with an empty key or an empty message:
  whatever the state and whatever the backend answers, a request leaves \<open>encryptMessage\<close>
  only when the message text is non-empty and the sifted key has at least one bit, and the
  request carries exactly that message and that key; with an empty message or an empty
  key the handler only writes the timeline. The encrypt button is disabled exactly while
  the sifted key is empty. So no empty key reaches the backend's key derivation from here.
\<close>

theorem encryptMessage_guard:
  "(snd (encryptMessage fetch st) = Some req \<longrightarrow>
      message st \<noteq> [] \<and> siftedKey st \<noteq> [] \<and>
      enc_message req = message st \<and> enc_key req = siftedKey st) \<and>
   (message st = [] \<or> siftedKey st = [] \<longrightarrow>
      encryptMessage fetch st = (st\<lparr>timeline := NeedKeyAndMessage\<rparr>, None)) \<and>
   (encrypt_button_disabled st \<longleftrightarrow> siftedKey st = [])"
  by (auto simp: encryptMessage_def encrypt_button_disabled_def Let_def
           split: option.splits if_splits)

theorem encryptMessage_guard_witness:
  "snd (encryptMessage backend_down (initial_state\<lparr>siftedKey := [1, 0], message := ''hi''\<rparr>))
     = Some \<lparr>enc_message = ''hi'', enc_key = [1, 0]\<rparr> \<and>
   message (initial_state\<lparr>siftedKey := [1, 0], message := ''hi''\<rparr>) \<noteq> [] \<and>
   siftedKey (initial_state\<lparr>siftedKey := [1, 0], message := ''hi''\<rparr>) \<noteq> [] \<and>
   message initial_state = [] \<and>
   encryptMessage backend_down initial_state
     = (initial_state\<lparr>timeline := NeedKeyAndMessage\<rparr>, None) \<and>
   encrypt_button_disabled initial_state"
  using encryptMessage_guard
    [of backend_down "initial_state\<lparr>siftedKey := [1, 0], message := ''hi''\<rparr>"
        "\<lparr>enc_message = ''hi'', enc_key = [1, 0]\<rparr>"]
    encryptMessage_guard [of backend_down initial_state]
  by (simp add: encryptMessage_def backend_down_def initial_state_def Let_def)

text \<open>The decrypt request is guarded the same way, and forwards the stored envelope.\<close>

lemma decryptMessage_guard:
  "snd (decryptMessage fetch st) = Some req \<Longrightarrow>
     encryptedData st = Some (encrypted_data req) \<and> dec_key req = siftedKey st \<and>
     dec_key req \<noteq> []"
  by (auto simp: decryptMessage_def Let_def split: option.splits if_splits)

text \<open>
  C10 (amended). When the reply to the run request carries an \<open>error\<close> field that is a
  non-empty message, or carries an \<open>error\<close> field and no result fields, \<open>runSimulation\<close>
  settles without displaying any results: the table data, the sifted key and Eve's key
  are empty, the QBER is the number 0 (the values written at the start of the run), no
  row is highlighted and the run is no longer marked as running. The guard is
  \<^verbatim>\<open>if (data.error)\<close>, so an empty message does not take the error branch.
\<close>

theorem runSimulation_error_reply:
  assumes "fetch \<lparr>n_bits = n st, eve_prob = eveProb st\<rparr> = Some data"
    and "error data = Some msg"
    and "msg \<noteq> [] \<or> result data = None"
  shows "tableData (fst (runSimulation toFixed2 fetch st)) = [] \<and>
         siftedKey (fst (runSimulation toFixed2 fetch st)) = [] \<and>
         eveKey (fst (runSimulation toFixed2 fetch st)) = [] \<and>
         qber (fst (runSimulation toFixed2 fetch st)) = QNum 0 \<and>
         highlightedRow (fst (runSimulation toFixed2 fetch st)) = None \<and>
         \<not> isRunning (fst (runSimulation toFixed2 fetch st))"
  using assms
  by (auto simp: runSimulation_def run_try_def truthy_def Let_def split: option.splits)

theorem runSimulation_error_reply_witness:
  "backend_replying \<lparr>error = Some ''bad count'', result = Some sample_result\<rparr>
     \<lparr>n_bits = n (initial_state\<lparr>siftedKey := [1, 0], eveKey := [1]\<rparr>),
      eve_prob = eveProb (initial_state\<lparr>siftedKey := [1, 0], eveKey := [1]\<rparr>)\<rparr>
     = Some \<lparr>error = Some ''bad count'', result = Some sample_result\<rparr> \<and>
   error \<lparr>error = Some ''bad count'', result = Some sample_result\<rparr> = Some ''bad count'' \<and>
   ''bad count'' \<noteq> [] \<and>
   tableData (fst (runSimulation sample_toFixed2
      (backend_replying \<lparr>error = Some ''bad count'', result = Some sample_result\<rparr>)
      (initial_state\<lparr>siftedKey := [1, 0], eveKey := [1]\<rparr>))) = [] \<and>
   siftedKey (fst (runSimulation sample_toFixed2
      (backend_replying \<lparr>error = Some ''bad count'', result = Some sample_result\<rparr>)
      (initial_state\<lparr>siftedKey := [1, 0], eveKey := [1]\<rparr>))) = [] \<and>
   result \<lparr>error = Some [], result = None\<rparr> = None \<and>
   siftedKey (fst (runSimulation sample_toFixed2
      (backend_replying \<lparr>error = Some [], result = None\<rparr>)
      (initial_state\<lparr>siftedKey := [1, 0], eveKey := [1]\<rparr>))) = []"
  using runSimulation_error_reply
    [of "backend_replying \<lparr>error = Some ''bad count'', result = Some sample_result\<rparr>"
        "initial_state\<lparr>siftedKey := [1, 0], eveKey := [1]\<rparr>"
        "\<lparr>error = Some ''bad count'', result = Some sample_result\<rparr>"
        "''bad count''" sample_toFixed2]
    runSimulation_error_reply
    [of "backend_replying \<lparr>error = Some [], result = None\<rparr>"
        "initial_state\<lparr>siftedKey := [1, 0], eveKey := [1]\<rparr>"
        "\<lparr>error = Some [], result = None\<rparr>"
        "[]" sample_toFixed2]
  by (simp add: backend_replying_def)

text \<open>
  The claim as first stated, for every reply that contains an \<open>error\<close> field, fails on a
  reply whose \<open>error\<close> is the empty string and that carries result fields as well: the
  guard is falsy, and the row and the key are displayed.
\<close>

theorem runSimulation_error_reply_counterexample:
  "error \<lparr>error = Some [], result = Some sample_result\<rparr> = Some [] \<and>
   tableData (fst (runSimulation sample_toFixed2
      (backend_replying \<lparr>error = Some [], result = Some sample_result\<rparr>) initial_state))
     = [sample_row] \<and>
   siftedKey (fst (runSimulation sample_toFixed2
      (backend_replying \<lparr>error = Some [], result = Some sample_result\<rparr>) initial_state))
     = [1]"
  by (simp add: runSimulation_def run_try_def truthy_def backend_replying_def
        sample_result_def sample_row_def includes_plus_def animatePhoton_def
        initial_state_def Let_def)

section \<open>Properties of the simulation engine\<close>

lemma simulate_photon_index: "index (fst (simulate_photon src trial p i g)) = i"
  by (simp add: simulate_photon_def Let_def split: prod.splits)

lemma simulate_photon_gated:
  "(eveIntercepted (fst (simulate_photon src trial p i g)) \<longrightarrow>
      eveBasis (fst (simulate_photon src trial p i g)) \<noteq> None \<and>
      eveBit (fst (simulate_photon src trial p i g)) \<noteq> None) \<and>
   (\<not> eveIntercepted (fst (simulate_photon src trial p i g)) \<longrightarrow>
      eveBasis (fst (simulate_photon src trial p i g)) = None \<and>
      eveBit (fst (simulate_photon src trial p i g)) = None)"
  by (simp add: simulate_photon_def Let_def split: prod.splits)

lemma run_loop_shape:
  "length (fst (run_loop src trial p i k g)) = k \<and>
   map index (fst (run_loop src trial p i k g)) = [i..<i + k]"
proof (induction k arbitrary: i g)
  case 0
  show ?case by simp
next
  case (Suc k)
  obtain e g1 where e: "simulate_photon src trial p i g = (e, g1)"
    by (cases "simulate_photon src trial p i g")
  obtain es g2 where es: "run_loop src trial p (Suc i) k g1 = (es, g2)"
    by (cases "run_loop src trial p (Suc i) k g1")
  have ie: "index e = i"
    using simulate_photon_index [of src trial p i g] e by simp
  from Suc.IH [of "Suc i" g1] es
  have "length es = k" and "map index es = [Suc i..<Suc i + k]"
    by simp_all
  then show ?case
    by (simp add: e es ie upt_conv_Cons)
qed

lemma run_loop_gated:
  "e \<in> set (fst (run_loop src trial p i k g)) \<Longrightarrow>
     (eveIntercepted e \<longrightarrow> eveBasis e \<noteq> None \<and> eveBit e \<noteq> None) \<and>
     (\<not> eveIntercepted e \<longrightarrow> eveBasis e = None \<and> eveBit e = None)"
proof (induction k arbitrary: i g)
  case 0
  then show ?case by simp
next
  case (Suc k)
  obtain e0 g1 where e0: "simulate_photon src trial p i g = (e0, g1)"
    by (cases "simulate_photon src trial p i g")
  obtain es g2 where es: "run_loop src trial p (Suc i) k g1 = (es, g2)"
    by (cases "run_loop src trial p (Suc i) k g1")
  from Suc.prems have "e = e0 \<or> e \<in> set es"
    by (simp add: e0 es)
  then show ?case
  proof
    assume "e = e0"
    then show ?thesis
      using simulate_photon_gated [of src trial p i g] e0 by simp
  next
    assume "e \<in> set es"
    then show ?thesis
      using Suc.IH [of "Suc i" g1] es by simp
  qed
qed

text \<open>
  C2. For every photon count above 0 and every interception probability in \<open>[0, 1]\<close>, the
  bounds 0 and 1 included, \<open>run\<close> returns a trace (it does not fail) that holds exactly
  \<open>photonCount\<close> events whose indices are \<open>0, 1, ..., photonCount - 1\<close> in this order:
  each index once, ascending, one event per photon and no retry. This holds for every
  random source and every Bernoulli trial.
\<close>

theorem run_trace_length_and_order:
  assumes "0 < photonCount" and "0 \<le> p" and "p \<le> 1"
  shows "\<exists>tr g'. run src trial photonCount p g = (Inr tr, g') \<and>
           length tr = nat photonCount \<and> map index tr = [0..<nat photonCount]"
proof -
  obtain tr g' where r: "run_loop src trial p 0 (nat photonCount) g = (tr, g')"
    by (cases "run_loop src trial p 0 (nat photonCount) g")
  have "run src trial photonCount p g = (Inr tr, g')"
    using assms r by (simp add: run_def)
  moreover have "length tr = nat photonCount \<and> map index tr = [0..<nat photonCount]"
    using run_loop_shape [of src trial p 0 "nat photonCount" g] r by simp
  ultimately show ?thesis by blast
qed

theorem run_trace_length_and_order_witness:
  "(0::int) < 4 \<and> (0::real) \<le> 1 \<and>
   (\<exists>tr g'. run seeded_source seeded_trial 4 0 5 = (Inr tr, g') \<and>
      length tr = 4 \<and> map index tr = [0..<4]) \<and>
   (\<exists>tr g'. run seeded_source seeded_trial 4 1 5 = (Inr tr, g') \<and>
      length tr = 4 \<and> map index tr = [0..<4])"
  using run_trace_length_and_order [of 4 0 seeded_source seeded_trial 5]
    run_trace_length_and_order [of 4 1 seeded_source seeded_trial 5]
  by simp

text \<open>
  C8. For every event of every trace that \<open>run\<close> returns: when \<open>eveIntercepted\<close> is false,
  \<open>eveBasis\<close> and \<open>eveBit\<close> are both absent; when it is true, both are present.
\<close>

theorem run_eve_fields_gated:
  assumes "run src trial photonCount p g = (Inr tr, g')" and "e \<in> set tr"
  shows "(\<not> eveIntercepted e \<longrightarrow> eveBasis e = None \<and> eveBit e = None) \<and>
         (eveIntercepted e \<longrightarrow> eveBasis e \<noteq> None \<and> eveBit e \<noteq> None)"
proof -
  from assms(1) have "tr = fst (run_loop src trial p 0 (nat photonCount) g)"
    by (auto simp: run_def split: if_splits prod.splits)
  with assms(2) run_loop_gated [of e src trial p 0 "nat photonCount" g]
  show ?thesis by auto
qed

theorem run_eve_fields_gated_witness:
  "run seeded_source seeded_trial 2 (1 / 2) 5 =
     (Inr [\<lparr>index = 0, aliceBit = OneBit, aliceBasis = Rectilinear,
            eveIntercepted = False, eveBasis = None, eveBit = None,
            bobBasis = Diagonal, bobBit = ZeroBit\<rparr>,
           \<lparr>index = 1, aliceBit = ZeroBit, aliceBasis = Diagonal,
            eveIntercepted = True, eveBasis = Some Rectilinear,
            eveBit = Some OneBit, bobBasis = Diagonal, bobBit = OneBit\<rparr>], 1) \<and>
   eveIntercepted (hd (tl (projr (fst (run seeded_source seeded_trial 2 (1 / 2) 5))))) \<and>
   eveBit (hd (tl (projr (fst (run seeded_source seeded_trial 2 (1 / 2) 5))))) \<noteq> None \<and>
   \<not> eveIntercepted (hd (projr (fst (run seeded_source seeded_trial 2 (1 / 2) 5)))) \<and>
   eveBit (hd (projr (fst (run seeded_source seeded_trial 2 (1 / 2) 5)))) = None"
proof -
  have r: "run seeded_source seeded_trial 2 (1 / 2) 5 =
     (Inr [\<lparr>index = 0, aliceBit = OneBit, aliceBasis = Rectilinear,
            eveIntercepted = False, eveBasis = None, eveBit = None,
            bobBasis = Diagonal, bobBit = ZeroBit\<rparr>,
           \<lparr>index = 1, aliceBit = ZeroBit, aliceBasis = Diagonal,
            eveIntercepted = True, eveBasis = Some Rectilinear,
            eveBit = Some OneBit, bobBasis = Diagonal, bobBit = OneBit\<rparr>], 1)"
    by code_simp
  show ?thesis
    using run_eve_fields_gated [OF r, of "\<lparr>index = 0, aliceBit = OneBit,
            aliceBasis = Rectilinear,
            eveIntercepted = False, eveBasis = None, eveBit = None,
            bobBasis = Diagonal, bobBit = ZeroBit\<rparr>"]
      run_eve_fields_gated [OF r, of "\<lparr>index = 1, aliceBit = ZeroBit,
            aliceBasis = Diagonal,
            eveIntercepted = True, eveBasis = Some Rectilinear,
            eveBit = Some OneBit, bobBasis = Diagonal, bobBit = OneBit\<rparr>"]
    by (simp add: r)
qed

end
